theory Spec2Isabelle
  imports Complex_Main
begin

section \<open>The respawn access gate of the Proton Web SDK\<close>

text \<open>
  A shallow embedding of the package \<^verbatim>\<open>proton-respawn\<close>: \<^verbatim>\<open>tokens.ts\<close>
  (\<^verbatim>\<open>getWalletTokens\<close>), \<^verbatim>\<open>respawn.ts\<close> (\<^verbatim>\<open>checkRespawnStatus\<close>,
  \<^verbatim>\<open>recordFreeAccess\<close>, \<^verbatim>\<open>payForAccess\<close>, \<^verbatim>\<open>formatTimeRemaining\<close>) and
  \<^verbatim>\<open>modal.ts\<close> (\<^verbatim>\<open>showRespawnModal\<close>).

  Conventions of the model.
  \<^item> A JavaScript number is a \<open>number\<close>: \<^verbatim>\<open>NaN\<close>, an infinity, or a finite value, kept as
    the rational it denotes. Arithmetic on finite values is exact: the rounding of doubles
    is not modelled.
  \<^item> \<^verbatim>\<open>last_access\<close> is a whole number of seconds, as the table declares it, and
    \<^verbatim>\<open>Date.now()\<close> a whole number of milliseconds; \<^verbatim>\<open>cooldownHours\<close> is any finite
    number.
  \<^item> A \<^verbatim>\<open>Date\<close> is modelled by its time value: a whole number of milliseconds within
    the range of dates, or \<^verbatim>\<open>NaN\<close> for an invalid date.
  \<^item> \<^verbatim>\<open>Date.now()\<close> is the parameter \<open>now\<close> of the function that reads the clock.
  \<^item> A promise is modelled by its settlement: \<open>Inr v\<close> when it resolves with \<open>v\<close>,
    \<open>Inl e\<close> when it rejects with the thrown value \<open>e\<close>.
  \<^item> The built-in \<^verbatim>\<open>parseFloat\<close> is a parameter of the functions that call it.
  \<^item> \<^verbatim>\<open>undefined\<close> in an optional position is \<open>None\<close>.
  \<^item> A local variable of the source that has the name of a field is written with a prime.
\<close>

subsection \<open>JavaScript values\<close>

datatype number = NaN | NegInfinity | Finite rat | Infinity

text \<open>\<^verbatim>\<open>x >= y\<close> on numbers: false as soon as one side is \<^verbatim>\<open>NaN\<close>.\<close>

fun number_ge :: "number \<Rightarrow> number \<Rightarrow> bool" where
  "number_ge NaN y = False"
| "number_ge x NaN = False"
| "number_ge Infinity y = True"
| "number_ge x NegInfinity = True"
| "number_ge NegInfinity y = False"
| "number_ge x Infinity = False"
| "number_ge (Finite a) (Finite b) = (b \<le> a)"

text \<open>
  A thrown value: an \<^verbatim>\<open>Error\<close> object with its message, or any other value, kept as
  the string \<^verbatim>\<open>String(err)\<close> gives for it.
\<close>

datatype thrown = Error string | NonError string

text \<open>\<^verbatim>\<open>err instanceof Error ? err.message : String(err)\<close>\<close>

fun error_message :: "thrown \<Rightarrow> string" where
  "error_message (Error m) = m"
| "error_message (NonError s) = s"

text \<open>\<^verbatim>\<open>x + y\<close>, \<^verbatim>\<open>-x\<close> and \<^verbatim>\<open>x - y\<close> on numbers.\<close>

fun number_plus :: "number \<Rightarrow> number \<Rightarrow> number" where
  "number_plus (Finite a) (Finite b) = Finite (a + b)"
| "number_plus NaN y = NaN"
| "number_plus x NaN = NaN"
| "number_plus Infinity NegInfinity = NaN"
| "number_plus NegInfinity Infinity = NaN"
| "number_plus Infinity y = Infinity"
| "number_plus x Infinity = Infinity"
| "number_plus NegInfinity y = NegInfinity"
| "number_plus x NegInfinity = NegInfinity"

fun number_negate :: "number \<Rightarrow> number" where
  "number_negate NaN = NaN"
| "number_negate NegInfinity = Infinity"
| "number_negate (Finite a) = Finite (- a)"
| "number_negate Infinity = NegInfinity"

definition number_minus :: "number \<Rightarrow> number \<Rightarrow> number" where
  "number_minus x y = number_plus x (number_negate y)"

text \<open>
  A \<^verbatim>\<open>Date\<close> holds a time value. \<^verbatim>\<open>new Date(v)\<close> clips the number \<open>v\<close>
  (\<^verbatim>\<open>TimeClip\<close> of the language): a value that is not finite, or beyond
  \<open>8640000000000000\<close> milliseconds on either side of the epoch, gives the invalid date,
  whose time value is \<^verbatim>\<open>NaN\<close>; any other value is cut to a whole number, towards zero.
\<close>

datatype date = Date (getTime: number)

definition trunc :: "rat \<Rightarrow> int" where
  "trunc x = (if 0 \<le> x then \<lfloor>x\<rfloor> else \<lceil>x\<rceil>)"

fun TimeClip :: "number \<Rightarrow> number" where
  "TimeClip (Finite x) =
     (if \<bar>x\<bar> > 8640000000000000 then NaN else Finite (of_int (trunc x)))"
| "TimeClip v = NaN"

definition new_Date :: "number \<Rightarrow> date" where
  "new_Date v = Date (TimeClip v)"

text \<open>\<^verbatim>\<open>xs[i]\<close> on an array: \<^verbatim>\<open>undefined\<close> out of range.\<close>

fun index :: "'a list \<Rightarrow> nat \<Rightarrow> 'a option" where
  "index [] i = None"
| "index (x # xs) 0 = Some x"
| "index (x # xs) (Suc i) = index xs i"

text \<open>\<^verbatim>\<open>s.split(c)\<close> for a separator of one character: never the empty array.\<close>

fun js_split :: "char \<Rightarrow> string \<Rightarrow> string list" where
  "js_split c [] = [[]]"
| "js_split c (x # xs) =
     (if x = c then [] # js_split c xs
      else (case js_split c xs of
              [] \<Rightarrow> [[x]]
            | w # ws \<Rightarrow> (x # w) # ws))"

text \<open>\<^verbatim>\<open>String(n)\<close> for a natural number: its decimal digits.\<close>

definition digit_char :: "nat \<Rightarrow> char" where
  "digit_char d = char_of (48 + d)"

fun String :: "nat \<Rightarrow> string" where
  "String n = (if n < 10 then [digit_char n] else String (n div 10) @ [digit_char (n mod 10)])"

declare String.simps [simp del]

text \<open>\<^verbatim>\<open>s.padStart(n, c)\<close> for a pad string of one character.\<close>

definition padStart :: "nat \<Rightarrow> char \<Rightarrow> string \<Rightarrow> string" where
  "padStart n c s = replicate (n - length s) c @ s"

text \<open>\<^verbatim>\<open>xs.join(sep)\<close>\<close>

fun join :: "string \<Rightarrow> string list \<Rightarrow> string" where
  "join sep [] = []"
| "join sep [x] = x"
| "join sep (x # y # ys) = x @ sep @ join sep (y # ys)"

subsection \<open>respawn.ts: formatTimeRemaining\<close>

text \<open>
  \<^verbatim>\<open>
  export function formatTimeRemaining(ms: number): string {
    const totalSeconds = Math.max(0, Math.floor(ms / 1000))
    const hours = Math.floor(totalSeconds / 3600)
    const minutes = Math.floor((totalSeconds % 3600) / 60)
    const seconds = totalSeconds % 60
    return [hours, minutes, seconds].map((n) => String(n).padStart(2, '0')).join(':')
  }
  \<close>
  The model takes a whole number of milliseconds. On integers \<^verbatim>\<open>Math.floor(ms / 1000)\<close>
  is \<open>ms div 1000\<close>, which rounds towards minus infinity as \<^verbatim>\<open>Math.floor\<close> does. The
  model is the source on the safe integers, from \<open>-9007199254740991\<close> to
  \<open>9007199254740991\<close>: beyond them the source computes with rounded doubles, and
  \<^verbatim>\<open>String\<close> prints a number from \<open>10 ^ 21\<close> on with an exponent. \<^verbatim>\<open>NaN\<close>, the
  infinities and fractions of a millisecond are not inputs of the model.
\<close>

definition formatTimeRemaining :: "int \<Rightarrow> string" where
  "formatTimeRemaining ms =
     (let totalSeconds = nat (max 0 (ms div 1000));
          hours = totalSeconds div 3600;
          minutes = (totalSeconds mod 3600) div 60;
          seconds = totalSeconds mod 60
      in join '':'' (map (\<lambda>n. padStart 2 (CHR ''0'') (String n)) [hours, minutes, seconds]))"

text \<open>Reading a field of the clock back: the number a string of decimal digits denotes.\<close>

definition is_digit :: "char \<Rightarrow> bool" where
  "is_digit c = ((48::nat) \<le> of_char c \<and> of_char c \<le> (57::nat))"

definition digits_value :: "string \<Rightarrow> nat" where
  "digits_value s = foldl (\<lambda>acc c. 10 * acc + (of_char c - 48)) 0 s"

text \<open>
  A stand-in for \<^verbatim>\<open>parseFloat\<close> on strings that start with an unsigned decimal literal
  (\<^verbatim>\<open>digits\<close>, \<^verbatim>\<open>digits.digits\<close>, \<^verbatim>\<open>.digits\<close>), giving the exact value of the
  literal and \<^verbatim>\<open>NaN\<close> when there is none. Signs, exponents, \<^verbatim>\<open>Infinity\<close> and leading
  white space are left out. It instantiates the parameter \<open>parseFloat\<close> in examples; no
  general statement below depends on it.
\<close>

definition parseFloat_decimal :: "string \<Rightarrow> number" where
  "parseFloat_decimal s =
     (let ip = takeWhile is_digit s;
          r = dropWhile is_digit s;
          fp = (case r of [] \<Rightarrow> [] | c # r' \<Rightarrow> if c = CHR ''.'' then takeWhile is_digit r' else [])
      in if ip = [] \<and> fp = [] then NaN
         else Finite (of_nat (digits_value ip) + of_nat (digits_value fp) / 10 ^ length fp))"

subsection \<open>The session and the chain behind it\<close>

text \<open>
  The session of \<^verbatim>\<open>@proton/link\<close> is an external collaborator. The model keeps what the
  package uses of it: \<^verbatim>\<open>session.auth\<close>, \<^verbatim>\<open>session.client.get_table_rows\<close> and
  \<^verbatim>\<open>session.transact\<close>. Both calls are functions of their request that either resolve
  or reject.

  A row of a table is a JSON object. The package reads three fields: \<^verbatim>\<open>account\<close> and
  \<^verbatim>\<open>last_access\<close> of a row of the access table, \<^verbatim>\<open>balance\<close> of a row of a token
  contract's \<^verbatim>\<open>accounts\<close> table. A row either has the shape of the access table, or the
  shape of the balance table, or none of the three fields (\<open>OtherRow\<close>).
\<close>

record permission_level =
  actor :: string
  permission :: string

datatype table_row = AccessRow string int | BalanceRow string | OtherRow

text \<open>\<^verbatim>\<open>row.account\<close> and \<^verbatim>\<open>row.balance\<close>: \<^verbatim>\<open>undefined\<close> on a row without the field.\<close>

fun row_account :: "table_row \<Rightarrow> string option" where
  "row_account (AccessRow a t) = Some a"
| "row_account r = None"

fun row_balance :: "table_row \<Rightarrow> string option" where
  "row_balance (BalanceRow b) = Some b"
| "row_balance r = None"

record table_query =
  code :: string
  scope :: string
  table :: string
  lower_bound :: "string option"
  upper_bound :: "string option"
  limit :: nat

record rpc_client =
  get_table_rows :: "table_query \<Rightarrow> thrown + table_row list"

record action =
  account :: string
  name :: string
  data :: "(string \<times> string) list"
  authorization :: "permission_level list"

record transaction =
  actions :: "action list"

record transact_options =
  broadcast :: bool

record 'r link_session =
  auth :: permission_level
  client :: rpc_client
  transact :: "transaction \<Rightarrow> transact_options \<Rightarrow> thrown + 'r"

subsection \<open>types.ts\<close>

record RespawnConfig =
  accessContract :: string
  accessTable :: string
  accessAction :: string
  paymentContract :: string
  paymentAction :: string
  paymentAmount :: string
  paymentMemo :: "string option"
  tokenContract :: "string option"
  cooldownHours :: "rat option"

text \<open>
  \<^verbatim>\<open>symbol\<close> is declared a string, and is \<^verbatim>\<open>undefined\<close> when the balance string has no
  space: the field is optional in the model. The field \<^verbatim>\<open>value\<close> is \<open>val\<close> here.
\<close>

record TokenBalance =
  contract :: string
  symbol :: "string option"
  precision :: nat
  amount :: string
  val :: number

record RespawnStatus =
  canRespawnFree :: bool
  lastAccessTime :: "date option"
  cooldownEnds :: "date option"
  timeRemainingMs :: "number option"
  tokens :: "TokenBalance list"
  xprBalance :: "TokenBalance option"
  hasEnoughXpr :: bool

datatype RespawnOption = Wait | Pay

record 'r RespawnResult =
  option :: RespawnOption
  success :: bool
  transactResult :: "'r option"
  error :: "string option"

subsection \<open>tokens.ts: getWalletTokens\<close>

text \<open>
  \<^verbatim>\<open>xs.map(f)\<close> when \<open>f\<close> can throw: the first throw ends the map.
\<close>

fun map_throwing :: "('a \<Rightarrow> thrown + 'b) \<Rightarrow> 'a list \<Rightarrow> thrown + 'b list" where
  "map_throwing f [] = Inr []"
| "map_throwing f (x # xs) =
     (case f x of
        Inl e \<Rightarrow> Inl e
      | Inr y \<Rightarrow> (case map_throwing f xs of Inl e \<Rightarrow> Inl e | Inr ys \<Rightarrow> Inr (y # ys)))"

text \<open>
  The callback of the map:
  \<^verbatim>\<open>
  (row) => {
    const [amount, symbol] = row.balance.split(' ')
    const decimalPart = amount.split('.')[1] ?? ''
    return {contract: tokenContract, symbol, precision: decimalPart.length, amount,
            value: parseFloat(amount)}
  }
  \<close>
  \<^verbatim>\<open>row.balance.split\<close> throws a \<^verbatim>\<open>TypeError\<close> when \<^verbatim>\<open>row.balance\<close> is
  \<^verbatim>\<open>undefined\<close>. \<^verbatim>\<open>split\<close> never gives the empty array, so \<^verbatim>\<open>amount\<close> is a string.
\<close>

definition token_of_row :: "(string \<Rightarrow> number) \<Rightarrow> string \<Rightarrow> table_row \<Rightarrow> thrown + TokenBalance" where
  "token_of_row parseFloat tokenContract' row =
     (case row_balance row of
        None \<Rightarrow> Inl (Error ''Cannot read properties of undefined'')
      | Some balance \<Rightarrow>
          (let parts = js_split (CHR '' '') balance;
               amount' = (case index parts 0 of None \<Rightarrow> [] | Some a \<Rightarrow> a);
               symbol' = index parts 1;
               decimalPart = (case index (js_split (CHR ''.'') amount') 1 of
                                None \<Rightarrow> [] | Some d \<Rightarrow> d)
           in Inr \<lparr>contract = tokenContract', symbol = symbol',
                   precision = length decimalPart, amount = amount',
                   val = parseFloat amount'\<rparr>))"

text \<open>
  \<^verbatim>\<open>
  export async function getWalletTokens(session, tokenContract = 'eosio.token') {
    const actor = session.auth.actor.toString()
    let rows = []
    try {
      const result = await session.client.get_table_rows({
        code: tokenContract, scope: actor, table: 'accounts', limit: 100 })
      rows = result.rows
    } catch {
      return []
    }
    return rows.map((row) => ...)
  }
  \<close>
  The map is outside the \<^verbatim>\<open>try\<close>: what it throws rejects the promise.
\<close>

definition getWalletTokens ::
  "(string \<Rightarrow> number) \<Rightarrow> 'r link_session \<Rightarrow> string option \<Rightarrow> thrown + TokenBalance list" where
  "getWalletTokens parseFloat session tokenContract_opt =
     (let tokenContract' = (case tokenContract_opt of None \<Rightarrow> ''eosio.token'' | Some c \<Rightarrow> c);
          actor' = actor (auth session)
      in case get_table_rows (client session)
                \<lparr>code = tokenContract', scope = actor', table = ''accounts'',
                 lower_bound = None, upper_bound = None, limit = 100\<rparr> of
           Inl e \<Rightarrow> Inr []
         | Inr rows \<Rightarrow> map_throwing (token_of_row parseFloat tokenContract') rows)"

subsection \<open>respawn.ts: checkRespawnStatus\<close>

text \<open>
  \<^verbatim>\<open>
  const actor = session.auth.actor.toString()
  const cooldownMs = (config.cooldownHours ?? 24) * 60 * 60 * 1000
  const payAmount = parseFloat(config.paymentAmount)
  const tokens = await getWalletTokens(session, config.tokenContract).catch(() => [])
  const xprBalance = tokens.find((t) => t.symbol === 'XPR')
  const hasEnoughXpr = (xprBalance?.value ?? 0) >= payAmount
  let rows = []
  try {
    const result = await session.client.get_table_rows({
      code: config.accessContract, scope: config.accessContract, table: config.accessTable,
      lower_bound: actor, upper_bound: actor, limit: 1 })
    rows = result.rows
  } catch { rows = [] }
  if (rows.length === 0 || rows[0].account !== actor) {
    return {canRespawnFree: true, tokens, xprBalance, hasEnoughXpr}
  }
  const lastAccessSec: number = rows[0].last_access
  const lastAccessTime = new Date(lastAccessSec * 1000)
  const cooldownEnds = new Date(lastAccessTime.getTime() + cooldownMs)
  const now = Date.now()
  const canRespawnFree = now >= cooldownEnds.getTime()
  const timeRemainingMs = canRespawnFree ? 0 : cooldownEnds.getTime() - now
  return {canRespawnFree, lastAccessTime, cooldownEnds, timeRemainingMs, tokens, xprBalance,
          hasEnoughXpr}
  \<close>
  A row whose \<^verbatim>\<open>account\<close> is the actor is a row of the access table, and has its
  \<^verbatim>\<open>last_access\<close>. The two dates go through \<open>new_Date\<close>, so that a time out of the
  range of dates gives the invalid date, a comparison that fails and \<^verbatim>\<open>NaN\<close> for the
  time that remains.
\<close>

definition checkRespawnStatus ::
  "(string \<Rightarrow> number) \<Rightarrow> 'r link_session \<Rightarrow> RespawnConfig \<Rightarrow> int \<Rightarrow> thrown + RespawnStatus" where
  "checkRespawnStatus parseFloat session config now =
     (let actor' = actor (auth session);
          cooldownMs = (case cooldownHours config of None \<Rightarrow> 24 | Some h \<Rightarrow> h) * 60 * 60 * 1000;
          payAmount = parseFloat (paymentAmount config);
          tokens' = (case getWalletTokens parseFloat session (tokenContract config) of
                       Inl e \<Rightarrow> [] | Inr ts \<Rightarrow> ts);
          xprBalance' = find (\<lambda>t. symbol t = Some ''XPR'') tokens';
          hasEnoughXpr' =
            number_ge (case xprBalance' of None \<Rightarrow> Finite 0 | Some t \<Rightarrow> val t) payAmount;
          rows = (case get_table_rows (client session)
                         \<lparr>code = accessContract config, scope = accessContract config,
                          table = accessTable config, lower_bound = Some actor',
                          upper_bound = Some actor', limit = 1\<rparr> of
                    Inl e \<Rightarrow> [] | Inr rs \<Rightarrow> rs);
          noRecord = \<lparr>canRespawnFree = True, lastAccessTime = None, cooldownEnds = None,
                      timeRemainingMs = None, tokens = tokens', xprBalance = xprBalance',
                      hasEnoughXpr = hasEnoughXpr'\<rparr>
      in case index rows 0 of
           None \<Rightarrow> Inr noRecord
         | Some OtherRow \<Rightarrow> Inr noRecord
         | Some (BalanceRow b) \<Rightarrow> Inr noRecord
         | Some (AccessRow account' lastAccessSec) \<Rightarrow>
             if account' \<noteq> actor' then Inr noRecord
             else
               (let lastAccessTime' = new_Date (Finite (of_int lastAccessSec * 1000));
                    cooldownEnds' =
                      new_Date (number_plus (getTime lastAccessTime') (Finite cooldownMs));
                    canRespawnFree' = number_ge (Finite (of_int now)) (getTime cooldownEnds');
                    timeRemainingMs' =
                      (if canRespawnFree' then Finite 0
                       else number_minus (getTime cooldownEnds') (Finite (of_int now)))
                in Inr \<lparr>canRespawnFree = canRespawnFree', lastAccessTime = Some lastAccessTime',
                        cooldownEnds = Some cooldownEnds',
                        timeRemainingMs = Some timeRemainingMs',
                        tokens = tokens', xprBalance = xprBalance',
                        hasEnoughXpr = hasEnoughXpr'\<rparr>))"

subsection \<open>respawn.ts: recordFreeAccess and payForAccess\<close>

text \<open>
  A function that signs returns, beside its settlement, the list of the requests it made to
  \<^verbatim>\<open>session.transact\<close>, in order.
\<close>

type_synonym transact_call = "transaction \<times> transact_options"

definition session_transact ::
  "'r link_session \<Rightarrow> transaction \<Rightarrow> transact_options \<Rightarrow> transact_call list \<times> (thrown + 'r)" where
  "session_transact session tx opts = ([(tx, opts)], transact session tx opts)"

definition recordFreeAccess ::
  "'r link_session \<Rightarrow> RespawnConfig \<Rightarrow> transact_call list \<times> (thrown + 'r)" where
  "recordFreeAccess session config =
     session_transact session
       \<lparr>actions = [\<lparr>account = accessContract config, name = accessAction config,
                    data = [(''account'', actor (auth session))],
                    authorization = [auth session]\<rparr>]\<rparr>
       \<lparr>broadcast = True\<rparr>"

definition payForAccess ::
  "'r link_session \<Rightarrow> RespawnConfig \<Rightarrow> transact_call list \<times> (thrown + 'r)" where
  "payForAccess session config =
     session_transact session
       \<lparr>actions = [\<lparr>account = paymentContract config, name = paymentAction config,
                    data = [(''account'', actor (auth session)),
                            (''quantity'', paymentAmount config),
                            (''memo'', (case paymentMemo config of
                                           None \<Rightarrow> ''respawn'' | Some m \<Rightarrow> m))],
                    authorization = [auth session]\<rparr>]\<rparr>
       \<lparr>broadcast = True\<rparr>"

subsection \<open>modal.ts: showRespawnModal\<close>

text \<open>
  The modal is the user's answer: closing it, or choosing one of the two options.
  \<^verbatim>\<open>
  const onChoose = async (option) => {
    cleanup()
    try {
      if (option === 'pay') {
        const transactResult = await payForAccess(session, config)
        resolve({option, success: true, transactResult})
      } else {
        if (resolvedStatus.canRespawnFree) { await recordFreeAccess(session, config) }
        resolve({option, success: true})
      }
    } catch (err) {
      const message = err instanceof Error ? err.message : String(err)
      resolve({option, success: false, error: message})
    }
  }
  \<close>
  \<open>onChoose\<close> gives the requests made and the value the promise of the modal resolves with.
\<close>

datatype user_action = Close | Choose RespawnOption

definition onChoose ::
  "'r link_session \<Rightarrow> RespawnConfig \<Rightarrow> RespawnStatus \<Rightarrow> RespawnOption
     \<Rightarrow> transact_call list \<times> 'r RespawnResult" where
  "onChoose session config resolvedStatus opt =
     (if opt = Pay then
        (case payForAccess session config of
           (calls, Inr transactResult') \<Rightarrow>
             (calls, \<lparr>option = opt, success = True, transactResult = Some transactResult',
                      error = None\<rparr>)
         | (calls, Inl err) \<Rightarrow>
             (calls, \<lparr>option = opt, success = False, transactResult = None,
                      error = Some (error_message err)\<rparr>))
      else if canRespawnFree resolvedStatus then
        (case recordFreeAccess session config of
           (calls, Inr r) \<Rightarrow>
             (calls, \<lparr>option = opt, success = True, transactResult = None, error = None\<rparr>)
         | (calls, Inl err) \<Rightarrow>
             (calls, \<lparr>option = opt, success = False, transactResult = None,
                      error = Some (error_message err)\<rparr>))
      else ([], \<lparr>option = opt, success = True, transactResult = None, error = None\<rparr>))"

text \<open>
  \<^verbatim>\<open>
  const resolvedStatus = status ?? (await checkRespawnStatus(session, config))
  return new Promise((resolve, reject) => {
    const onClose = () => { cleanup(); reject(new Error('cancelled')) }
    const onChoose = ...
    widget = mount(RespawnModal, {..., props: {..., onChoose, onClose}})
  })
  \<close>
\<close>

definition showRespawnModal ::
  "(string \<Rightarrow> number) \<Rightarrow> 'r link_session \<Rightarrow> RespawnConfig \<Rightarrow> RespawnStatus option \<Rightarrow> int
     \<Rightarrow> user_action \<Rightarrow> transact_call list \<times> (thrown + 'r RespawnResult)" where
  "showRespawnModal parseFloat session config status now user =
     (case (case status of
              Some st \<Rightarrow> Inr st
            | None \<Rightarrow> checkRespawnStatus parseFloat session config now) of
        Inl e \<Rightarrow> ([], Inl e)
      | Inr resolvedStatus \<Rightarrow>
          (case user of
             Close \<Rightarrow> ([], Inl (Error ''cancelled''))
           | Choose opt \<Rightarrow>
               (case onChoose session config resolvedStatus opt of
                  (calls, result) \<Rightarrow> (calls, Inr result))))"

subsection \<open>Decimal amounts\<close>

text \<open>
  The text of a decimal amount as the chain prints it: the digits before the point, then,
  if the token has decimals, the point and the digits after it.
\<close>

definition decimal_amount :: "string \<Rightarrow> string option \<Rightarrow> string" where
  "decimal_amount ipart fpart = ipart @ (case fpart of None \<Rightarrow> [] | Some f \<Rightarrow> ''.'' @ f)"

subsection \<open>Example scenarios\<close>

text \<open>
  The configuration of the example scenario: a cooldown of 24 hours and a price of
  \<^verbatim>\<open>1.0000 XPR\<close>.
\<close>

definition example_config :: RespawnConfig where
  "example_config =
     \<lparr>accessContract = ''a'', accessTable = ''accounts'', accessAction = ''setaccess'',
      paymentContract = ''p'', paymentAction = ''unlock'', paymentAmount = ''1.0000 XPR'',
      paymentMemo = None, tokenContract = None, cooldownHours = Some 24\<rparr>"

text \<open>
  A chain on which both contracts are deployed: the access table has the row of
  \<^verbatim>\<open>bob\<close>, last seen at \<open>1700000000\<close>, and \<^verbatim>\<open>bob\<close> holds two tokens.
\<close>

definition example_client :: rpc_client where
  "example_client =
     \<lparr>get_table_rows = (\<lambda>q.
        if code q = ''a'' \<and> table q = ''accounts'' then Inr [AccessRow ''bob'' 1700000000]
        else if code q = ''eosio.token'' \<and> table q = ''accounts''
          then Inr [BalanceRow ''2.50 FOO'', BalanceRow ''1.0000 XPR'']
        else Inl (Error ''unknown table''))\<rparr>"

definition example_session :: "string link_session" where
  "example_session =
     \<lparr>auth = \<lparr>actor = ''bob'', permission = ''active''\<rparr>, client = example_client,
      transact = (\<lambda>tx opts. Inr ''receipt'')\<rparr>"

text \<open>A chain without the contracts, and a wallet that refuses to sign.\<close>

definition undeployed_session :: "string link_session" where
  "undeployed_session =
     \<lparr>auth = \<lparr>actor = ''bob'', permission = ''active''\<rparr>,
      client = \<lparr>get_table_rows = (\<lambda>q. Inl (Error ''contract not found''))\<rparr>,
      transact = (\<lambda>tx opts. Inl (Error ''user rejected''))\<rparr>"

text \<open>The same chain, and a wallet that throws a string, not an \<^verbatim>\<open>Error\<close>.\<close>

definition string_throwing_session :: "string link_session" where
  "string_throwing_session =
     \<lparr>auth = \<lparr>actor = ''bob'', permission = ''active''\<rparr>,
      client = \<lparr>get_table_rows = (\<lambda>q. Inl (Error ''contract not found''))\<rparr>,
      transact = (\<lambda>tx opts. Inl (NonError ''boom''))\<rparr>"

text \<open>A token contract whose rows have no \<^verbatim>\<open>balance\<close> field.\<close>

definition malformed_session :: "string link_session" where
  "malformed_session =
     \<lparr>auth = \<lparr>actor = ''bob'', permission = ''active''\<rparr>,
      client = \<lparr>get_table_rows = (\<lambda>q. Inr [OtherRow])\<rparr>,
      transact = (\<lambda>tx opts. Inl (Error ''user rejected''))\<rparr>"

text \<open>A token contract whose balance is not an amount followed by a symbol.\<close>

definition garbage_session :: "string link_session" where
  "garbage_session =
     \<lparr>auth = \<lparr>actor = ''bob'', permission = ''active''\<rparr>,
      client = \<lparr>get_table_rows = (\<lambda>q. Inr [BalanceRow ''garbage''])\<rparr>,
      transact = (\<lambda>tx opts. Inl (Error ''user rejected''))\<rparr>"


section \<open>Properties\<close>

subsection \<open>Decimal digits and the clock format\<close>

lemma digit_char_is_digit: "d < 10 \<Longrightarrow> is_digit (digit_char d)"
  by (simp add: is_digit_def digit_char_def)

lemma digit_char_value: "d < 10 \<Longrightarrow> of_char (digit_char d) - 48 = d"
  by (simp add: digit_char_def)

lemma String_digits: "list_all is_digit (String n)"
proof (induction n rule: String.induct)
  case (1 n)
  show ?case
  proof (cases "n < 10")
    case True
    then show ?thesis by (subst String.simps) (simp add: digit_char_is_digit)
  next
    case False
    with 1 show ?thesis by (subst String.simps) (simp add: digit_char_is_digit)
  qed
qed

lemma digits_value_snoc: "digits_value (s @ [c]) = 10 * digits_value s + (of_char c - 48)"
  by (simp add: digits_value_def)

lemma String_value: "digits_value (String n) = n"
proof (induction n rule: String.induct)
  case (1 n)
  show ?case
  proof (cases "n < 10")
    case True
    then show ?thesis by (subst String.simps) (simp add: digits_value_def digit_char_value)
  next
    case False
    then have "digits_value (String n) = 10 * digits_value (String (n div 10)) + n mod 10"
      by (subst String.simps) (simp add: digits_value_snoc digit_char_value)
    with 1 False show ?thesis by simp
  qed
qed

lemma String_nonempty: "String n \<noteq> []"
  by (subst String.simps) simp

lemma String_length_small: "n < 100 \<Longrightarrow> length (String n) \<le> 2"
proof -
  assume "n < 100"
  then have "n div 10 < 10" by simp
  then have "length (String (n div 10)) = 1" by (subst String.simps) simp
  then show ?thesis by (subst String.simps) simp
qed

lemma digits_value_zeros: "digits_value (replicate k (CHR ''0'') @ s) = digits_value s"
  by (induction k) (simp_all add: digits_value_def)

lemma pad_value: "digits_value (padStart 2 (CHR ''0'') (String n)) = n"
  by (simp add: padStart_def digits_value_zeros String_value)

lemma pad_digits: "list_all is_digit (padStart 2 (CHR ''0'') (String n))"
  using String_digits [of n] by (auto simp: padStart_def list_all_iff is_digit_def)

lemma pad_length: "2 \<le> length (padStart 2 (CHR ''0'') (String n))"
  by (simp add: padStart_def)

lemma pad_length_small: "n < 100 \<Longrightarrow> length (padStart 2 (CHR ''0'') (String n)) = 2"
  using String_length_small [of n] by (simp add: padStart_def)

lemma js_split_none: "c \<notin> set a \<Longrightarrow> js_split c a = [a]"
  by (induction a) auto

lemma js_split_sep: "c \<notin> set a \<Longrightarrow> js_split c (a @ c # rest) = a # js_split c rest"
  by (induction a) auto

lemma digits_no_colon: "list_all is_digit s \<Longrightarrow> CHR '':'' \<notin> set s"
  by (auto simp: list_all_iff is_digit_def)

lemma js_split_clock:
  assumes "list_all is_digit a" "list_all is_digit b" "list_all is_digit c"
  shows "js_split (CHR '':'') (join '':'' [a, b, c]) = [a, b, c]"
  using assms by (simp add: js_split_sep js_split_none digits_no_colon)

text \<open>
  Claim C6. For a safe integer \<open>ms\<close>, \<open>formatTimeRemaining\<close> gives what it gives for
  \<open>ms\<close> clamped to zero, and prints the hours, minutes and seconds of the whole seconds in
  it, separated by colons: read back as decimal numbers the three fields are the hours (not
  capped), the minutes and the seconds; every field is made of digits and has at least two
  of them, the last two fields exactly two. It maps \<open>0\<close> to \<^verbatim>\<open>00:00:00\<close>, \<open>3661000\<close> to
  \<^verbatim>\<open>01:01:01\<close>, a hundred hours to \<^verbatim>\<open>100:00:00\<close>, and \<open>-500\<close>, as every input
  that is not positive, to what it gives for \<open>0\<close>.
\<close>

theorem formatTimeRemaining_clock:
  assumes "- 9007199254740991 \<le> ms" and "ms \<le> 9007199254740991"
  shows "(let t = nat (max 0 (ms div 1000));
              fields = js_split (CHR '':'') (formatTimeRemaining ms)
          in map digits_value fields = [t div 3600, (t mod 3600) div 60, t mod 60]
             \<and> list_all (\<lambda>f. 2 \<le> length f \<and> list_all is_digit f) fields
             \<and> map length (tl fields) = [2, 2])
         \<and> formatTimeRemaining ms = formatTimeRemaining (max 0 ms)
         \<and> (ms \<le> 0 \<longrightarrow> formatTimeRemaining ms = formatTimeRemaining 0)
         \<and> formatTimeRemaining 0 = ''00:00:00''
         \<and> formatTimeRemaining 3661000 = ''01:01:01''
         \<and> formatTimeRemaining 360000000 = ''100:00:00''
         \<and> formatTimeRemaining (- 500) = formatTimeRemaining 0"
proof -
  define t where "t = nat (max 0 (ms div 1000))"
  define pad where "pad = (\<lambda>n. padStart 2 (CHR ''0'') (String n))"
  have fmt: "formatTimeRemaining ms = join '':'' [pad (t div 3600), pad ((t mod 3600) div 60), pad (t mod 60)]"
    by (simp add: formatTimeRemaining_def t_def pad_def Let_def)
  have split: "js_split (CHR '':'') (formatTimeRemaining ms)
      = [pad (t div 3600), pad ((t mod 3600) div 60), pad (t mod 60)]"
    unfolding fmt pad_def by (rule js_split_clock) (rule pad_digits)+
  have m: "(t mod 3600) div 60 < 100" and s: "t mod 60 < 100"
    by (simp_all add: less_mult_imp_div_less)
  have general: "(let t = nat (max 0 (ms div 1000));
        fields = js_split (CHR '':'') (formatTimeRemaining ms)
    in map digits_value fields = [t div 3600, (t mod 3600) div 60, t mod 60]
       \<and> list_all (\<lambda>f. 2 \<le> length f \<and> list_all is_digit f) fields
       \<and> map length (tl fields) = [2, 2])"
    unfolding Let_def t_def [symmetric] split
    using m s by (simp add: pad_def pad_value pad_digits pad_length pad_length_small)
  have z: "formatTimeRemaining 0 = ''00:00:00''"
    by (simp add: formatTimeRemaining_def padStart_def String.simps digit_char_def char_of_eq_iff)
  have e1: "formatTimeRemaining 3661000 = ''01:01:01''"
    by (simp add: formatTimeRemaining_def padStart_def String.simps digit_char_def char_of_eq_iff)
  have e2: "formatTimeRemaining 360000000 = ''100:00:00''"
    by (simp add: formatTimeRemaining_def padStart_def String.simps digit_char_def char_of_eq_iff)
  have neg: "formatTimeRemaining k = formatTimeRemaining 0" if "k \<le> 0" for k
  proof -
    from that have "k div 1000 \<le> 0" by (intro div_nonpos_pos_le0) simp_all
    then have "nat (max 0 (k div 1000)) = 0" by simp
    then show ?thesis by (simp add: formatTimeRemaining_def)
  qed
  from neg [of "- 500"] have n500: "formatTimeRemaining (- 500) = formatTimeRemaining 0" by simp
  have "max 0 (ms div 1000) = max 0 (max 0 ms div 1000)"
  proof (cases "ms < 0")
    case True
    then have "ms div 1000 \<le> 0" by (intro div_nonpos_pos_le0) simp_all
    with True show ?thesis by simp
  next
    case False
    then show ?thesis by simp
  qed
  then have clamp: "formatTimeRemaining ms = formatTimeRemaining (max 0 ms)"
    by (simp add: formatTimeRemaining_def)
  from general z e1 e2 clamp n500 neg [of ms] show ?thesis by blast
qed

text \<open>Seven hours and five seconds; and half a second before zero.\<close>

theorem formatTimeRemaining_clock_witness:
  "- 9007199254740991 \<le> (25205400::int) \<and> (25205400::int) \<le> 9007199254740991
   \<and> formatTimeRemaining 25205400 = ''07:00:05''
   \<and> map digits_value (js_split (CHR '':'') (formatTimeRemaining 25205400)) = [7, 0, 5]
   \<and> - 9007199254740991 \<le> (- 500::int) \<and> (- 500::int) \<le> 9007199254740991
   \<and> formatTimeRemaining (- 500) = ''00:00:00''"
proof -
  have b: "- 9007199254740991 \<le> (25205400::int)" "(25205400::int) \<le> 9007199254740991"
    and c: "- 9007199254740991 \<le> (- 500::int)" "(- 500::int) \<le> 9007199254740991"
    by simp_all
  have v: "formatTimeRemaining 25205400 = ''07:00:05''"
    by (simp add: formatTimeRemaining_def padStart_def String.simps digit_char_def char_of_eq_iff)
  from formatTimeRemaining_clock [OF b]
  have "map digits_value (js_split (CHR '':'') (formatTimeRemaining 25205400))
          = [nat (max 0 (25205400 div 1000)) div 3600,
             (nat (max 0 (25205400 div 1000)) mod 3600) div 60,
             nat (max 0 (25205400 div 1000)) mod 60]"
    unfolding Let_def by blast
  then have f: "map digits_value (js_split (CHR '':'') (formatTimeRemaining 25205400)) = [7, 0, 5]"
    by simp
  from formatTimeRemaining_clock [OF c]
  have "formatTimeRemaining (- 500) = formatTimeRemaining 0"
    and "formatTimeRemaining 0 = ''00:00:00''"
    by blast+
  then have n: "formatTimeRemaining (- 500) = ''00:00:00''" by simp
  from b c v f n show ?thesis by blast
qed

subsection \<open>Evaluating the examples\<close>

lemmas example_defs = example_session_def example_client_def example_config_def
  undeployed_session_def malformed_session_def string_throwing_session_def

lemmas parse_defs = getWalletTokens_def token_of_row_def parseFloat_decimal_def
  is_digit_def digits_value_def

lemmas time_defs = new_Date_def number_minus_def trunc_def

subsection \<open>The cooldown status\<close>

text \<open>
  Whatever the chain answers, \<open>checkRespawnStatus\<close> resolves, and the token fields of the
  status do not depend on the access table.
\<close>

lemma checkRespawnStatus_shape:
  "\<exists>free last ends remaining.
     checkRespawnStatus parseFloat session config now =
       (let tokens' = (case getWalletTokens parseFloat session (tokenContract config) of
                         Inl e \<Rightarrow> [] | Inr ts \<Rightarrow> ts);
            xprBalance' = find (\<lambda>t. symbol t = Some ''XPR'') tokens'
        in Inr \<lparr>canRespawnFree = free, lastAccessTime = last, cooldownEnds = ends,
                timeRemainingMs = remaining, tokens = tokens', xprBalance = xprBalance',
                hasEnoughXpr =
                  number_ge (case xprBalance' of None \<Rightarrow> Finite 0 | Some t \<Rightarrow> val t)
                    (parseFloat (paymentAmount config))\<rparr>)"
proof -
  define rows where "rows = (case get_table_rows (client session)
                         \<lparr>code = accessContract config, scope = accessContract config,
                          table = accessTable config, lower_bound = Some (actor (auth session)),
                          upper_bound = Some (actor (auth session)), limit = 1\<rparr> of
                    Inl e \<Rightarrow> [] | Inr rs \<Rightarrow> rs)"
  show ?thesis
  proof (cases "index rows 0")
    case None
    then show ?thesis
      unfolding checkRespawnStatus_def Let_def rows_def by auto
  next
    case (Some row)
    then show ?thesis
      unfolding checkRespawnStatus_def Let_def rows_def by (cases row) auto
  qed
qed

lemma example_status:
  "checkRespawnStatus parseFloat_decimal example_session example_config 1700003600000 =
     Inr \<lparr>canRespawnFree = False, lastAccessTime = Some (Date (Finite 1700000000000)),
          cooldownEnds = Some (Date (Finite 1700086400000)),
          timeRemainingMs = Some (Finite 82800000),
          tokens = [\<lparr>contract = ''eosio.token'', symbol = Some ''FOO'', precision = 2,
                     amount = ''2.50'', val = Finite (5 / 2)\<rparr>,
                    \<lparr>contract = ''eosio.token'', symbol = Some ''XPR'', precision = 4,
                     amount = ''1.0000'', val = Finite 1\<rparr>],
          xprBalance = Some \<lparr>contract = ''eosio.token'', symbol = Some ''XPR'', precision = 4,
                             amount = ''1.0000'', val = Finite 1\<rparr>,
          hasEnoughXpr = True\<rparr>"
  by (simp add: checkRespawnStatus_def example_defs parse_defs time_defs Let_def)

text \<open>Sums and differences that are not finite.\<close>

lemma number_plus_NaN:
  "number_plus x y = NaN \<longleftrightarrow>
     x = NaN \<or> y = NaN \<or> (x = Infinity \<and> y = NegInfinity) \<or> (x = NegInfinity \<and> y = Infinity)"
  by (cases x; cases y) simp_all

lemma number_plus_Infinity:
  "number_plus x y = Infinity \<longleftrightarrow>
     (x = Infinity \<and> y \<noteq> NaN \<and> y \<noteq> NegInfinity) \<or> (y = Infinity \<and> x \<noteq> NaN \<and> x \<noteq> NegInfinity)"
  by (cases x; cases y) simp_all

lemma number_plus_NegInfinity:
  "number_plus x y = NegInfinity \<longleftrightarrow>
     (x = NegInfinity \<and> y \<noteq> NaN \<and> y \<noteq> Infinity) \<or> (y = NegInfinity \<and> x \<noteq> NaN \<and> x \<noteq> Infinity)"
  by (cases x; cases y) simp_all

lemma number_minus_cases:
  "number_minus (Finite a) (Finite b) = Finite (a - b)"
  "number_minus NaN y = NaN"
  "number_minus x NaN = NaN"
  "number_minus Infinity (Finite b) = Infinity"
  "number_minus (Finite a) Infinity = NegInfinity"
  "number_minus NegInfinity (Finite b) = NegInfinity"
  "number_minus (Finite a) NegInfinity = Infinity"
  "number_minus Infinity Infinity = NaN"
  "number_minus NegInfinity NegInfinity = NaN"
  by (cases x; cases y; simp add: number_minus_def)+

text \<open>Whole numbers of milliseconds within the range of dates pass \<open>TimeClip\<close> unchanged.\<close>

lemma floor_numeral_divide:
  "\<lfloor>numeral a / numeral b :: rat\<rfloor> = numeral a div numeral b"
  using floor_divide_of_int_eq [of "numeral a" "numeral b", where ?'a = rat] by simp

lemma trunc_of_int: "trunc (of_int e) = e"
  by (simp add: trunc_def)


lemma TimeClip_of_int:
  "\<bar>of_int e :: rat\<bar> \<le> 8640000000000000 \<Longrightarrow> TimeClip (Finite (of_int e)) = Finite (of_int e)"
  by (simp add: trunc_of_int)


text \<open>The status when the access table answers with the row of the actor.\<close>

lemma checkRespawnStatus_record:
  assumes "get_table_rows (client session)
             \<lparr>code = accessContract config, scope = accessContract config,
              table = accessTable config, lower_bound = Some (actor (auth session)),
              upper_bound = Some (actor (auth session)), limit = 1\<rparr>
           = Inr (AccessRow (actor (auth session)) t0 # rest)"
    and "h = (case cooldownHours config of None \<Rightarrow> 24 | Some n \<Rightarrow> n)"
    and "seen = TimeClip (Finite (of_int t0 * 1000))"
    and "ends = TimeClip (number_plus seen (Finite (h * 60 * 60 * 1000)))"
  shows "\<exists>st. checkRespawnStatus parseFloat session config now = Inr st
           \<and> canRespawnFree st = number_ge (Finite (of_int now)) ends
           \<and> lastAccessTime st = Some (Date seen)
           \<and> cooldownEnds st = Some (Date ends)
           \<and> timeRemainingMs st =
               Some (if number_ge (Finite (of_int now)) ends then Finite 0
                     else number_minus ends (Finite (of_int now)))"
  using assms(1) unfolding assms(2,3,4)
  by (simp add: checkRespawnStatus_def Let_def new_Date_def del: TimeClip.simps)

text \<open>
  Claim C1, as stated, fails. With a cooldown of \<open>2400000000\<close> hours the end of the cooldown
  is out of the range of dates: the clock reads a time before it, and the time that remains
  is \<^verbatim>\<open>NaN\<close>, not the difference. With a cooldown of half a millisecond the end of the
  cooldown is cut to a whole millisecond: the clock reads a time before the end as the claim
  computes it, and free access is open.
\<close>

theorem checkRespawnStatus_cooldown_out_of_range:
  "(of_int 1700003600000 :: rat) < of_int 1700000000 * 1000 + 2400000000 * 3600000
   \<and> checkRespawnStatus parseFloat_decimal example_session
         (example_config\<lparr>cooldownHours := Some 2400000000\<rparr>) 1700003600000 =
       Inr \<lparr>canRespawnFree = False, lastAccessTime = Some (Date (Finite 1700000000000)),
            cooldownEnds = Some (Date NaN), timeRemainingMs = Some NaN,
            tokens = [\<lparr>contract = ''eosio.token'', symbol = Some ''FOO'', precision = 2,
                       amount = ''2.50'', val = Finite (5 / 2)\<rparr>,
                      \<lparr>contract = ''eosio.token'', symbol = Some ''XPR'', precision = 4,
                       amount = ''1.0000'', val = Finite 1\<rparr>],
            xprBalance = Some \<lparr>contract = ''eosio.token'', symbol = Some ''XPR'',
                               precision = 4, amount = ''1.0000'', val = Finite 1\<rparr>,
            hasEnoughXpr = True\<rparr>
   \<and> (of_int 1700000000000 :: rat) < of_int 1700000000 * 1000 + (1 / 7200000) * 3600000
   \<and> checkRespawnStatus parseFloat_decimal example_session
         (example_config\<lparr>cooldownHours := Some (1 / 7200000)\<rparr>) 1700000000000 =
       Inr \<lparr>canRespawnFree = True, lastAccessTime = Some (Date (Finite 1700000000000)),
            cooldownEnds = Some (Date (Finite 1700000000000)),
            timeRemainingMs = Some (Finite 0),
            tokens = [\<lparr>contract = ''eosio.token'', symbol = Some ''FOO'', precision = 2,
                       amount = ''2.50'', val = Finite (5 / 2)\<rparr>,
                      \<lparr>contract = ''eosio.token'', symbol = Some ''XPR'', precision = 4,
                       amount = ''1.0000'', val = Finite 1\<rparr>],
            xprBalance = Some \<lparr>contract = ''eosio.token'', symbol = Some ''XPR'',
                               precision = 4, amount = ''1.0000'', val = Finite 1\<rparr>,
            hasEnoughXpr = True\<rparr>"
  by (simp add: checkRespawnStatus_def example_defs parse_defs time_defs Let_def
        floor_numeral_divide)

text \<open>
  A finite double is a rational. When \<open>h * 3600000\<close> is a whole number below \<open>2 ^ 53\<close> in
  size, the products \<open>h * 60\<close>, \<open>h * 60 * 60\<close> and \<open>h * 60 * 60 * 1000\<close> of the source have
  the odd part of \<open>h\<close> times a divisor of \<open>28125\<close> as their odd part, which is below
  \<open>2 ^ 53\<close>: they are doubles, and so is a sum with \<open>t0 * 1000\<close> that is within the range
  of dates. So for every \<^verbatim>\<open>last_access\<close> that the table can hold, an unsigned number of 32
  bits, the source computes without rounding under the hypotheses below, as the model does.
\<close>

text \<open>
  Claim C1, amended. The access table answers with the row of the account, last seen at
  \<open>t0\<close> seconds, and the cooldown is \<open>h\<close> hours (24 when unset). When \<open>t0 * 1000\<close> and
  the end of the cooldown \<open>t0 * 1000 + h * 3600000\<close> are within \<open>8640000000000000\<close>
  milliseconds of the epoch, and the end is a whole number of milliseconds, then at a time
  \<open>now\<close> before the end the status has \<open>canRespawnFree = False\<close> and \<open>timeRemainingMs\<close>
  is what is left until the end; from the end on the status has \<open>canRespawnFree = True\<close>
  and \<open>timeRemainingMs = 0\<close>.
\<close>

theorem checkRespawnStatus_cooldown:
  assumes "get_table_rows (client session)
             \<lparr>code = accessContract config, scope = accessContract config,
              table = accessTable config, lower_bound = Some (actor (auth session)),
              upper_bound = Some (actor (auth session)), limit = 1\<rparr>
           = Inr (AccessRow (actor (auth session)) t0 # rest)"
    and "h = (case cooldownHours config of None \<Rightarrow> 24 | Some n \<Rightarrow> n)"
    and "ends = of_int t0 * 1000 + h * 3600000"
    and "\<bar>of_int t0 * 1000 :: rat\<bar> \<le> 8640000000000000"
    and "\<bar>ends\<bar> \<le> 8640000000000000"
    and "ends \<in> \<int>"
  shows "\<exists>st. checkRespawnStatus parseFloat session config now = Inr st
           \<and> (of_int now < ends \<longrightarrow>
                 canRespawnFree st = False
                 \<and> timeRemainingMs st = Some (Finite (ends - of_int now)))
           \<and> (of_int now \<ge> ends \<longrightarrow>
                 canRespawnFree st = True \<and> timeRemainingMs st = Some (Finite 0))"
proof -
  have "(of_int t0 * 1000 :: rat) = of_int (t0 * 1000)" by simp
  with assms(4) have last: "TimeClip (Finite (of_int t0 * 1000)) = Finite (of_int t0 * 1000)"
    by (simp only: TimeClip_of_int)
  from assms(6) obtain e where e: "ends = of_int e" by (auto elim: Ints_cases)
  have sum: "number_plus (Finite (of_int t0 * 1000)) (Finite (h * 60 * 60 * 1000)) = Finite ends"
    by (simp add: assms(3))
  have clip: "TimeClip (Finite ends) = Finite ends"
    using assms(5) unfolding e by (rule TimeClip_of_int)
  from checkRespawnStatus_record [OF assms(1,2) refl refl, of parseFloat now]
  obtain st where st: "checkRespawnStatus parseFloat session config now = Inr st"
    and free: "canRespawnFree st = number_ge (Finite (of_int now)) (Finite ends)"
    and left: "timeRemainingMs st =
               Some (if number_ge (Finite (of_int now)) (Finite ends) then Finite 0
                     else number_minus (Finite ends) (Finite (of_int now)))"
    unfolding last sum clip by blast
  from free left have
    "(of_int now < ends \<longrightarrow>
        canRespawnFree st = False \<and> timeRemainingMs st = Some (Finite (ends - of_int now)))
     \<and> (of_int now \<ge> ends \<longrightarrow>
        canRespawnFree st = True \<and> timeRemainingMs st = Some (Finite 0))"
    by (auto simp: number_minus_def)
  with st show ?thesis by blast
qed

text \<open>
  The example scenario: \<^verbatim>\<open>bob\<close> was last seen at \<open>1700000000\<close>, the cooldown is 24 hours
  and the clock reads one hour later; 23 hours are left.
\<close>

theorem checkRespawnStatus_cooldown_example:
  "get_table_rows (client example_session)
     \<lparr>code = accessContract example_config, scope = accessContract example_config,
      table = accessTable example_config, lower_bound = Some (actor (auth example_session)),
      upper_bound = Some (actor (auth example_session)), limit = 1\<rparr>
     = Inr (AccessRow (actor (auth example_session)) 1700000000 # [])
   \<and> cooldownHours example_config = Some 24
   \<and> \<bar>of_int 1700000000 * 1000 :: rat\<bar> \<le> 8640000000000000
   \<and> \<bar>of_int 1700000000 * 1000 + 24 * 3600000 :: rat\<bar> \<le> 8640000000000000
   \<and> (of_int 1700000000 * 1000 + 24 * 3600000 :: rat) \<in> \<int>
   \<and> (of_int ((1700000000 + 3600) * 1000) :: rat) < of_int 1700000000 * 1000 + 24 * 3600000
   \<and> (\<exists>st. checkRespawnStatus parseFloat_decimal example_session example_config
               ((1700000000 + 3600) * 1000) = Inr st
           \<and> canRespawnFree st = False
           \<and> timeRemainingMs st = Some (Finite (23 * 3600000)))"
proof -
  have q: "get_table_rows (client example_session)
     \<lparr>code = accessContract example_config, scope = accessContract example_config,
      table = accessTable example_config, lower_bound = Some (actor (auth example_session)),
      upper_bound = Some (actor (auth example_session)), limit = 1\<rparr>
     = Inr (AccessRow (actor (auth example_session)) 1700000000 # [])"
    by (simp add: example_defs)
  have h: "(24::rat) = (case cooldownHours example_config of None \<Rightarrow> 24 | Some n \<Rightarrow> n)"
    and c: "cooldownHours example_config = Some 24"
    by (simp_all add: example_defs)
  have r1: "\<bar>of_int 1700000000 * 1000 :: rat\<bar> \<le> 8640000000000000"
    and r2: "\<bar>of_int 1700000000 * 1000 + 24 * 3600000 :: rat\<bar> \<le> 8640000000000000"
    and before: "(of_int ((1700000000 + 3600) * 1000) :: rat)
                   < of_int 1700000000 * 1000 + 24 * 3600000"
    by simp_all
  have "(of_int 1700000000 * 1000 + 24 * 3600000 :: rat) = of_int 1700086400000" by simp
  then have w: "(of_int 1700000000 * 1000 + 24 * 3600000 :: rat) \<in> \<int>"
    by (simp only: Ints_of_int)
  from checkRespawnStatus_cooldown [OF q h refl r1 r2 w, of parseFloat_decimal
         "(1700000000 + 3600) * 1000"] before
  obtain st where "checkRespawnStatus parseFloat_decimal example_session example_config
               ((1700000000 + 3600) * 1000) = Inr st"
     and "canRespawnFree st = False"
     and "timeRemainingMs st = Some (Finite (23 * 3600000))"
    by auto
  with q c r1 r2 w before show ?thesis by blast
qed

text \<open>
  Claim C2. When the query of the access table rejects, or answers with no row, or answers
  with a first row whose account is not the actor, \<open>checkRespawnStatus\<close> resolves with a
  status that has \<open>canRespawnFree = True\<close>, the tokens, the XPR balance and
  \<open>hasEnoughXpr\<close>, and neither \<open>lastAccessTime\<close> nor \<open>cooldownEnds\<close> nor
  \<open>timeRemainingMs\<close>.
\<close>

theorem checkRespawnStatus_no_record:
  assumes "get_table_rows (client session)
             \<lparr>code = accessContract config, scope = accessContract config,
              table = accessTable config, lower_bound = Some (actor (auth session)),
              upper_bound = Some (actor (auth session)), limit = 1\<rparr> = answer"
    and "(\<exists>e. answer = Inl e) \<or> answer = Inr []
         \<or> (\<exists>row rest. answer = Inr (row # rest) \<and> row_account row \<noteq> Some (actor (auth session)))"
  shows "checkRespawnStatus parseFloat session config now =
           (let tokens' = (case getWalletTokens parseFloat session (tokenContract config) of
                             Inl e \<Rightarrow> [] | Inr ts \<Rightarrow> ts);
                xprBalance' = find (\<lambda>t. symbol t = Some ''XPR'') tokens'
            in Inr \<lparr>canRespawnFree = True, lastAccessTime = None, cooldownEnds = None,
                    timeRemainingMs = None, tokens = tokens', xprBalance = xprBalance',
                    hasEnoughXpr =
                      number_ge (case xprBalance' of None \<Rightarrow> Finite 0 | Some t \<Rightarrow> val t)
                        (parseFloat (paymentAmount config))\<rparr>)"
proof -
  from assms(2) consider
      (rejects) e where "answer = Inl e"
    | (empty) "answer = Inr []"
    | (other) row rest where "answer = Inr (row # rest)" "row_account row \<noteq> Some (actor (auth session))"
    by blast
  then show ?thesis
  proof cases
    case rejects
    with assms(1) show ?thesis by (simp add: checkRespawnStatus_def Let_def)
  next
    case empty
    with assms(1) show ?thesis by (simp add: checkRespawnStatus_def Let_def)
  next
    case other
    with assms(1) show ?thesis
      by (cases row) (simp_all add: checkRespawnStatus_def Let_def)
  qed
qed

theorem checkRespawnStatus_no_record_witness:
  "get_table_rows (client undeployed_session)
     \<lparr>code = accessContract example_config, scope = accessContract example_config,
      table = accessTable example_config, lower_bound = Some (actor (auth undeployed_session)),
      upper_bound = Some (actor (auth undeployed_session)), limit = 1\<rparr>
     = Inl (Error ''contract not found'')
   \<and> checkRespawnStatus parseFloat_decimal undeployed_session example_config 0 =
       Inr \<lparr>canRespawnFree = True, lastAccessTime = None, cooldownEnds = None,
            timeRemainingMs = None, tokens = [], xprBalance = None, hasEnoughXpr = False\<rparr>"
proof -
  have q: "get_table_rows (client undeployed_session)
     \<lparr>code = accessContract example_config, scope = accessContract example_config,
      table = accessTable example_config, lower_bound = Some (actor (auth undeployed_session)),
      upper_bound = Some (actor (auth undeployed_session)), limit = 1\<rparr>
     = Inl (Error ''contract not found'')"
    by (simp add: example_defs)
  then have d: "(\<exists>e. Inl (Error ''contract not found'') = (Inl e :: thrown + table_row list))
     \<or> (Inl (Error ''contract not found'') :: thrown + table_row list) = Inr []
     \<or> (\<exists>row rest. (Inl (Error ''contract not found'') :: thrown + table_row list) = Inr (row # rest)
           \<and> row_account row \<noteq> Some (actor (auth undeployed_session)))"
    by simp
  have t: "getWalletTokens parseFloat_decimal undeployed_session (tokenContract example_config)
             = Inr []"
    by (simp add: getWalletTokens_def example_defs)
  have p: "parseFloat_decimal (paymentAmount example_config) = Finite 1"
    by (simp add: example_defs parse_defs)
  from checkRespawnStatus_no_record [OF q d, of parseFloat_decimal 0] q
  show ?thesis by (simp add: t p)
qed




text \<open>
  Claim C5. \<open>checkRespawnStatus\<close> resolves with a status whose tokens are what
  \<open>getWalletTokens\<close> resolves with for the token contract of the configuration (none when it
  rejects), whose \<open>xprBalance\<close> is the first of them with the symbol \<^verbatim>\<open>XPR\<close>, and whose
  \<open>hasEnoughXpr\<close> is \<^verbatim>\<open>>=\<close> between the value of that balance, or \<open>0\<close> when there is none,
  and \<^verbatim>\<open>parseFloat\<close> of the payment amount: false when either is \<^verbatim>\<open>NaN\<close>, and otherwise
  true exactly when the value is \<^verbatim>\<open>Infinity\<close>, or the price is \<^verbatim>\<open>-Infinity\<close>, or both
  are finite and the value is at least the price. Holding exactly the price is enough.
\<close>

theorem checkRespawnStatus_hasEnoughXpr:
  "\<exists>st. checkRespawnStatus parseFloat session config now = Inr st
     \<and> tokens st = (case getWalletTokens parseFloat session (tokenContract config) of
                      Inl e \<Rightarrow> [] | Inr ts \<Rightarrow> ts)
     \<and> xprBalance st = find (\<lambda>t. symbol t = Some ''XPR'') (tokens st)
     \<and> (let held = (case find (\<lambda>t. symbol t = Some ''XPR'') (tokens st) of
                       None \<Rightarrow> Finite 0 | Some t \<Rightarrow> val t);
             threshold = parseFloat (paymentAmount config)
         in hasEnoughXpr st =
              (held \<noteq> NaN \<and> threshold \<noteq> NaN
               \<and> (held = Infinity \<or> threshold = NegInfinity
                    \<or> (\<exists>a b. held = Finite a \<and> threshold = Finite b \<and> b \<le> a)))
            \<and> (\<forall>a. held = Finite a \<and> threshold = Finite a \<longrightarrow> hasEnoughXpr st = True))"
proof -
  have ge: "number_ge x y =
              (x \<noteq> NaN \<and> y \<noteq> NaN
               \<and> (x = Infinity \<or> y = NegInfinity \<or> (\<exists>a b. x = Finite a \<and> y = Finite b \<and> b \<le> a)))"
    for x y
    by (cases x; cases y) simp_all
  from checkRespawnStatus_shape [of parseFloat session config now]
  obtain st where st: "checkRespawnStatus parseFloat session config now = Inr st"
    and t: "tokens st = (case getWalletTokens parseFloat session (tokenContract config) of
                      Inl e \<Rightarrow> [] | Inr ts \<Rightarrow> ts)"
    and x: "xprBalance st = find (\<lambda>t. symbol t = Some ''XPR'') (tokens st)"
    and h: "hasEnoughXpr st =
              number_ge (case find (\<lambda>t. symbol t = Some ''XPR'') (tokens st) of
                           None \<Rightarrow> Finite 0 | Some t \<Rightarrow> val t)
                (parseFloat (paymentAmount config))"
    unfolding Let_def by auto
  have "let held = (case find (\<lambda>t. symbol t = Some ''XPR'') (tokens st) of
                       None \<Rightarrow> Finite 0 | Some t \<Rightarrow> val t);
             threshold = parseFloat (paymentAmount config)
         in hasEnoughXpr st =
              (held \<noteq> NaN \<and> threshold \<noteq> NaN
               \<and> (held = Infinity \<or> threshold = NegInfinity
                    \<or> (\<exists>a b. held = Finite a \<and> threshold = Finite b \<and> b \<le> a)))
            \<and> (\<forall>a. held = Finite a \<and> threshold = Finite a \<longrightarrow> hasEnoughXpr st = True)"
    unfolding Let_def h ge by simp
  with st t x show ?thesis by blast
qed

text \<open>
  \<^verbatim>\<open>bob\<close> holds \<^verbatim>\<open>1.0000 XPR\<close> and the price is \<^verbatim>\<open>1.0000 XPR\<close>: he has enough. With
  the price \<^verbatim>\<open>free\<close>, which \<^verbatim>\<open>parseFloat\<close> reads as \<^verbatim>\<open>NaN\<close>, he has not.
\<close>

theorem checkRespawnStatus_hasEnoughXpr_witness:
  "(\<exists>st. checkRespawnStatus parseFloat_decimal example_session example_config 1700003600000
            = Inr st
        \<and> tokens st = [\<lparr>contract = ''eosio.token'', symbol = Some ''FOO'', precision = 2,
                         amount = ''2.50'', val = Finite (5 / 2)\<rparr>,
                        \<lparr>contract = ''eosio.token'', symbol = Some ''XPR'', precision = 4,
                         amount = ''1.0000'', val = Finite 1\<rparr>]
        \<and> parseFloat_decimal (paymentAmount example_config) = Finite 1
        \<and> hasEnoughXpr st = True)
   \<and> (\<exists>st. checkRespawnStatus parseFloat_decimal example_session
              (example_config\<lparr>paymentAmount := ''free''\<rparr>) 1700003600000 = Inr st
        \<and> parseFloat_decimal ''free'' = NaN
        \<and> hasEnoughXpr st = False)"
proof -
  have toks: "(case getWalletTokens parseFloat_decimal example_session
                      (tokenContract example_config) of Inl e \<Rightarrow> [] | Inr ts \<Rightarrow> ts)
      = [\<lparr>contract = ''eosio.token'', symbol = Some ''FOO'', precision = 2,
           amount = ''2.50'', val = Finite (5 / 2)\<rparr>,
          \<lparr>contract = ''eosio.token'', symbol = Some ''XPR'', precision = 4,
           amount = ''1.0000'', val = Finite 1\<rparr>]"
    by (simp add: example_defs parse_defs Let_def)
  have p: "parseFloat_decimal (paymentAmount example_config) = Finite 1"
    by (simp add: example_defs parse_defs)
  have n: "parseFloat_decimal ''free'' = NaN"
    by (simp add: parse_defs)
  from checkRespawnStatus_hasEnoughXpr
         [of parseFloat_decimal example_session example_config 1700003600000]
  obtain st where st: "checkRespawnStatus parseFloat_decimal example_session example_config
                         1700003600000 = Inr st"
    and t: "tokens st = (case getWalletTokens parseFloat_decimal example_session
                      (tokenContract example_config) of Inl e \<Rightarrow> [] | Inr ts \<Rightarrow> ts)"
    and b: "\<forall>a. (case find (\<lambda>t. symbol t = Some ''XPR'') (tokens st) of
                       None \<Rightarrow> Finite 0 | Some t \<Rightarrow> val t) = Finite a
               \<and> parseFloat_decimal (paymentAmount example_config) = Finite a
               \<longrightarrow> hasEnoughXpr st = True"
    unfolding Let_def by blast
  from t toks have t': "tokens st = [\<lparr>contract = ''eosio.token'', symbol = Some ''FOO'',
           precision = 2, amount = ''2.50'', val = Finite (5 / 2)\<rparr>,
          \<lparr>contract = ''eosio.token'', symbol = Some ''XPR'', precision = 4,
           amount = ''1.0000'', val = Finite 1\<rparr>]"
    by simp
  then have held: "(case find (\<lambda>t. symbol t = Some ''XPR'') (tokens st) of
                       None \<Rightarrow> Finite 0 | Some t \<Rightarrow> val t) = Finite 1"
    by simp
  from b held p have e: "hasEnoughXpr st = True" by blast
  from checkRespawnStatus_hasEnoughXpr
         [of parseFloat_decimal example_session "example_config\<lparr>paymentAmount := ''free''\<rparr>"
             1700003600000]
  obtain st' where st': "checkRespawnStatus parseFloat_decimal example_session
              (example_config\<lparr>paymentAmount := ''free''\<rparr>) 1700003600000 = Inr st'"
    and c: "hasEnoughXpr st' =
              ((case find (\<lambda>t. symbol t = Some ''XPR'') (tokens st') of
                       None \<Rightarrow> Finite 0 | Some t \<Rightarrow> val t) \<noteq> NaN
               \<and> parseFloat_decimal (paymentAmount (example_config\<lparr>paymentAmount := ''free''\<rparr>))
                    \<noteq> NaN
               \<and> ((case find (\<lambda>t. symbol t = Some ''XPR'') (tokens st') of
                       None \<Rightarrow> Finite 0 | Some t \<Rightarrow> val t) = Infinity
                    \<or> parseFloat_decimal (paymentAmount (example_config\<lparr>paymentAmount := ''free''\<rparr>))
                        = NegInfinity
                    \<or> (\<exists>a b. (case find (\<lambda>t. symbol t = Some ''XPR'') (tokens st') of
                                 None \<Rightarrow> Finite 0 | Some t \<Rightarrow> val t) = Finite a
                           \<and> parseFloat_decimal
                               (paymentAmount (example_config\<lparr>paymentAmount := ''free''\<rparr>))
                              = Finite b
                           \<and> b \<le> a)))"
    unfolding Let_def by blast
  from c n have e': "hasEnoughXpr st' = False" by simp
  from st t' p e st' n e' show ?thesis by blast
qed

subsection \<open>The balance reader\<close>

lemma map_throwing_some:
  "x \<in> set xs \<Longrightarrow> f x = Inl e \<Longrightarrow> \<exists>e'. map_throwing f xs = Inl e'"
  by (induction xs) (auto split: sum.splits)

lemma token_of_row_decimal:
  assumes "CHR '' '' \<notin> set ipart" "CHR '' '' \<notin> set sy" "CHR ''.'' \<notin> set ipart"
    and "\<And>f. fpart = Some f \<Longrightarrow> CHR '' '' \<notin> set f \<and> CHR ''.'' \<notin> set f"
  shows "token_of_row parseFloat tc (BalanceRow (decimal_amount ipart fpart @ '' '' @ sy)) =
           Inr \<lparr>contract = tc, symbol = Some sy,
                precision = (case fpart of None \<Rightarrow> 0 | Some f \<Rightarrow> length f),
                amount = decimal_amount ipart fpart,
                val = parseFloat (decimal_amount ipart fpart)\<rparr>"
proof -
  have nosp: "CHR '' '' \<notin> set (decimal_amount ipart fpart)"
    using assms by (cases fpart) (auto simp: decimal_amount_def)
  have sp: "js_split (CHR '' '') (decimal_amount ipart fpart @ '' '' @ sy)
              = [decimal_amount ipart fpart, sy]"
    using nosp assms(2) by (simp add: js_split_sep js_split_none)
  have dot: "index (js_split (CHR ''.'') (decimal_amount ipart fpart)) (Suc 0) = fpart"
  proof (cases fpart)
    case None
    with assms(3) show ?thesis by (simp add: decimal_amount_def js_split_none)
  next
    case (Some f)
    with assms(3) assms(4) [of f] show ?thesis
      by (simp add: decimal_amount_def js_split_sep js_split_none)
  qed
  show ?thesis
    using sp dot by (cases fpart) (simp_all add: token_of_row_def Let_def)
qed

lemma map_throwing_nth:
  "(\<And>x. x \<in> set xs \<Longrightarrow> \<exists>y. f x = Inr y) \<Longrightarrow>
   \<exists>ys. map_throwing f xs = Inr ys \<and> length ys = length xs
        \<and> (\<forall>i < length xs. f (xs ! i) = Inr (ys ! i))"
proof (induction xs)
  case Nil
  then show ?case by simp
next
  case (Cons x xs)
  from Cons.prems obtain y where y: "f x = Inr y" by auto
  from Cons obtain ys where ys: "map_throwing f xs = Inr ys" "length ys = length xs"
    "\<forall>i < length xs. f (xs ! i) = Inr (ys ! i)" by auto
  have "\<forall>i < length (x # xs). f ((x # xs) ! i) = Inr ((y # ys) ! i)"
    using y ys(3) by (auto simp: nth_Cons split: nat.splits)
  with y ys(1,2) show ?case by simp
qed

lemma token_of_row_balance: "row_balance row \<noteq> None \<Longrightarrow> \<exists>t. token_of_row parseFloat tc row = Inr t"
  by (auto simp: token_of_row_def Let_def)

text \<open>
  Claim C7. The query asks for at most 100 rows of the table \<^verbatim>\<open>accounts\<close> of the token
  contract, in the scope of the actor. When it answers with rows that all have a balance,
  \<open>getWalletTokens\<close> resolves with one token for each row, in the order of the rows; for a
  row whose balance is a decimal amount, a space and a symbol, the token has that amount,
  that symbol, the number of digits after the point as its precision (none without a point)
  and \<^verbatim>\<open>parseFloat\<close> of the amount as its value.
\<close>

theorem getWalletTokens_parse_rows:
  assumes "tc = (case tokenContract_opt of None \<Rightarrow> ''eosio.token'' | Some c \<Rightarrow> c)"
    and "get_table_rows (client session)
           \<lparr>code = tc, scope = actor (auth session), table = ''accounts'',
            lower_bound = None, upper_bound = None, limit = 100\<rparr> = Inr rows"
    and "\<forall>row \<in> set rows. row_balance row \<noteq> None"
  shows "\<exists>toks. getWalletTokens parseFloat session tokenContract_opt = Inr toks
           \<and> length toks = length rows
           \<and> (\<forall>i ipart fpart sy.
                 i < length rows
                 \<and> rows ! i = BalanceRow (decimal_amount ipart fpart @ '' '' @ sy)
                 \<and> CHR '' '' \<notin> set ipart \<and> CHR '' '' \<notin> set sy \<and> CHR ''.'' \<notin> set ipart
                 \<and> (\<forall>f. fpart = Some f \<longrightarrow> CHR '' '' \<notin> set f \<and> CHR ''.'' \<notin> set f)
                 \<longrightarrow> toks ! i =
                       \<lparr>contract = tc, symbol = Some sy,
                        precision = (case fpart of None \<Rightarrow> 0 | Some f \<Rightarrow> length f),
                        amount = decimal_amount ipart fpart,
                        val = parseFloat (decimal_amount ipart fpart)\<rparr>)"
proof -
  from assms(3) have "\<And>row. row \<in> set rows \<Longrightarrow> \<exists>t. token_of_row parseFloat tc row = Inr t"
    by (simp add: token_of_row_balance)
  from map_throwing_nth [of rows "token_of_row parseFloat tc", OF this]
  obtain toks where toks: "map_throwing (token_of_row parseFloat tc) rows = Inr toks"
    "length toks = length rows"
    "\<forall>i < length rows. token_of_row parseFloat tc (rows ! i) = Inr (toks ! i)"
    by blast
  have res: "getWalletTokens parseFloat session tokenContract_opt = Inr toks"
    using assms(1,2) toks(1) by (simp add: getWalletTokens_def Let_def)
  have each: "toks ! i = \<lparr>contract = tc, symbol = Some sy,
                        precision = (case fpart of None \<Rightarrow> 0 | Some f \<Rightarrow> length f),
                        amount = decimal_amount ipart fpart,
                        val = parseFloat (decimal_amount ipart fpart)\<rparr>"
    if "i < length rows" "rows ! i = BalanceRow (decimal_amount ipart fpart @ '' '' @ sy)"
       "CHR '' '' \<notin> set ipart" "CHR '' '' \<notin> set sy" "CHR ''.'' \<notin> set ipart"
       "\<forall>f. fpart = Some f \<longrightarrow> CHR '' '' \<notin> set f \<and> CHR ''.'' \<notin> set f"
    for i ipart fpart sy
  proof -
    from that(1) toks(3) have "token_of_row parseFloat tc (rows ! i) = Inr (toks ! i)" by simp
    moreover have "token_of_row parseFloat tc (rows ! i) = Inr \<lparr>contract = tc, symbol = Some sy,
                        precision = (case fpart of None \<Rightarrow> 0 | Some f \<Rightarrow> length f),
                        amount = decimal_amount ipart fpart,
                        val = parseFloat (decimal_amount ipart fpart)\<rparr>"
      unfolding that(2) by (rule token_of_row_decimal) (use that in auto)
    ultimately show ?thesis by simp
  qed
  from res toks(2) each show ?thesis by blast
qed

theorem getWalletTokens_parse_rows_witness:
  "get_table_rows (client example_session)
     \<lparr>code = ''eosio.token'', scope = actor (auth example_session), table = ''accounts'',
      lower_bound = None, upper_bound = None, limit = 100\<rparr>
     = Inr [BalanceRow ''2.50 FOO'', BalanceRow ''1.0000 XPR'']
   \<and> (\<exists>toks. getWalletTokens parseFloat_decimal example_session None = Inr toks
         \<and> length toks = 2
         \<and> toks ! 1 = \<lparr>contract = ''eosio.token'', symbol = Some ''XPR'', precision = 4,
                        amount = ''1.0000'', val = parseFloat_decimal ''1.0000''\<rparr>)"
proof -
  have tc: "''eosio.token'' = (case None :: string option of None \<Rightarrow> ''eosio.token'' | Some c \<Rightarrow> c)"
    by simp
  have q: "get_table_rows (client example_session)
     \<lparr>code = ''eosio.token'', scope = actor (auth example_session), table = ''accounts'',
      lower_bound = None, upper_bound = None, limit = 100\<rparr>
     = Inr [BalanceRow ''2.50 FOO'', BalanceRow ''1.0000 XPR'']"
    by (simp add: example_defs)
  have b: "\<forall>row \<in> set [BalanceRow ''2.50 FOO'', BalanceRow ''1.0000 XPR'']. row_balance row \<noteq> None"
    by simp
  from getWalletTokens_parse_rows [OF tc q b, of parseFloat_decimal]
  obtain toks where toks: "getWalletTokens parseFloat_decimal example_session None = Inr toks"
      "length toks = length [BalanceRow ''2.50 FOO'', BalanceRow ''1.0000 XPR'']"
    and each: "\<forall>i ipart fpart sy.
                 i < length [BalanceRow ''2.50 FOO'', BalanceRow ''1.0000 XPR'']
                 \<and> [BalanceRow ''2.50 FOO'', BalanceRow ''1.0000 XPR''] ! i
                     = BalanceRow (decimal_amount ipart fpart @ '' '' @ sy)
                 \<and> CHR '' '' \<notin> set ipart \<and> CHR '' '' \<notin> set sy \<and> CHR ''.'' \<notin> set ipart
                 \<and> (\<forall>f. fpart = Some f \<longrightarrow> CHR '' '' \<notin> set f \<and> CHR ''.'' \<notin> set f)
                 \<longrightarrow> toks ! i =
                       \<lparr>contract = ''eosio.token'', symbol = Some sy,
                        precision = (case fpart of None \<Rightarrow> 0 | Some f \<Rightarrow> length f),
                        amount = decimal_amount ipart fpart,
                        val = parseFloat_decimal (decimal_amount ipart fpart)\<rparr>"
    by blast
  from each [rule_format, of 1 "''1''" "Some ''0000''" "''XPR''"]
  have "toks ! 1 = \<lparr>contract = ''eosio.token'', symbol = Some ''XPR'', precision = 4,
                        amount = ''1.0000'', val = parseFloat_decimal ''1.0000''\<rparr>"
    by (simp add: decimal_amount_def)
  with q toks show ?thesis by simp
qed

text \<open>
  Claim C8, as stated, fails: a row without a balance makes \<open>getWalletTokens\<close> reject, and
  a balance that is not an amount and a symbol gives a token, not the empty list.
\<close>

theorem getWalletTokens_malformed_rows:
  "getWalletTokens parseFloat_decimal malformed_session None
     = Inl (Error ''Cannot read properties of undefined'')
   \<and> getWalletTokens parseFloat_decimal malformed_session None \<noteq> Inr []
   \<and> getWalletTokens parseFloat_decimal garbage_session None
     = Inr [\<lparr>contract = ''eosio.token'', symbol = None, precision = 0, amount = ''garbage'',
             val = NaN\<rparr>]
   \<and> getWalletTokens parseFloat_decimal garbage_session None \<noteq> Inr []"
  by (simp add: parse_defs malformed_session_def garbage_session_def)

text \<open>
  Claim C8, amended. A query of the balance table that rejects gives the empty list of
  tokens, as a query that answers with no row does. A row without a balance makes
  \<open>getWalletTokens\<close> reject; \<open>checkRespawnStatus\<close> absorbs that rejection and resolves
  with the empty list of tokens.
\<close>

theorem getWalletTokens_absorbs_query_failure:
  assumes "tc = (case tokenContract_opt of None \<Rightarrow> ''eosio.token'' | Some c \<Rightarrow> c)"
    and "get_table_rows (client session)
           \<lparr>code = tc, scope = actor (auth session), table = ''accounts'',
            lower_bound = None, upper_bound = None, limit = 100\<rparr> = answer"
  shows "((\<exists>e. answer = Inl e) \<longrightarrow> getWalletTokens parseFloat session tokenContract_opt = Inr [])
       \<and> (answer = Inr [] \<longrightarrow> getWalletTokens parseFloat session tokenContract_opt = Inr [])
       \<and> ((\<exists>rows. answer = Inr rows \<and> (\<exists>row \<in> set rows. row_balance row = None)) \<longrightarrow>
             (\<exists>e. getWalletTokens parseFloat session tokenContract_opt = Inl e))
       \<and> (tokenContract_opt = tokenContract config
            \<and> (\<exists>e. getWalletTokens parseFloat session tokenContract_opt = Inl e) \<longrightarrow>
             (\<exists>st. checkRespawnStatus parseFloat session config now = Inr st
                    \<and> tokens st = [] \<and> xprBalance st = None))"
proof -
  have a: "getWalletTokens parseFloat session tokenContract_opt = Inr []" if "answer = Inl e" for e
    using that assms by (simp add: getWalletTokens_def Let_def)
  have b: "getWalletTokens parseFloat session tokenContract_opt = Inr []" if "answer = Inr []"
    using that assms by (simp add: getWalletTokens_def Let_def)
  have c: "\<exists>e. getWalletTokens parseFloat session tokenContract_opt = Inl e"
    if "answer = Inr rows" "row \<in> set rows" "row_balance row = None" for rows row
  proof -
    have "token_of_row parseFloat tc row = Inl (Error ''Cannot read properties of undefined'')"
      using that(3) by (simp add: token_of_row_def)
    with that(2) have "\<exists>e'. map_throwing (token_of_row parseFloat tc) rows = Inl e'"
      by (rule map_throwing_some)
    then show ?thesis using that(1) assms by (simp add: getWalletTokens_def Let_def)
  qed
  have d: "\<exists>st. checkRespawnStatus parseFloat session config now = Inr st
                    \<and> tokens st = [] \<and> xprBalance st = None"
    if "getWalletTokens parseFloat session (tokenContract config) = Inl e" for e
    using checkRespawnStatus_shape [of parseFloat session config now] that
    by (auto simp: Let_def)
  from a b c d show ?thesis by blast
qed

theorem getWalletTokens_absorbs_query_failure_witness:
  "get_table_rows (client undeployed_session)
     \<lparr>code = ''eosio.token'', scope = actor (auth undeployed_session), table = ''accounts'',
      lower_bound = None, upper_bound = None, limit = 100\<rparr> = Inl (Error ''contract not found'')
   \<and> getWalletTokens parseFloat_decimal undeployed_session None = Inr []
   \<and> get_table_rows (client malformed_session)
     \<lparr>code = ''eosio.token'', scope = actor (auth malformed_session), table = ''accounts'',
      lower_bound = None, upper_bound = None, limit = 100\<rparr> = Inr [OtherRow]
   \<and> (\<exists>e. getWalletTokens parseFloat_decimal malformed_session None = Inl e)
   \<and> (\<exists>st. checkRespawnStatus parseFloat_decimal malformed_session example_config 0 = Inr st
          \<and> tokens st = [] \<and> xprBalance st = None)"
proof -
  have tc: "''eosio.token'' = (case None :: string option of None \<Rightarrow> ''eosio.token'' | Some c \<Rightarrow> c)"
    by simp
  have q1: "get_table_rows (client undeployed_session)
     \<lparr>code = ''eosio.token'', scope = actor (auth undeployed_session), table = ''accounts'',
      lower_bound = None, upper_bound = None, limit = 100\<rparr> = Inl (Error ''contract not found'')"
    by (simp add: example_defs)
  have q2: "get_table_rows (client malformed_session)
     \<lparr>code = ''eosio.token'', scope = actor (auth malformed_session), table = ''accounts'',
      lower_bound = None, upper_bound = None, limit = 100\<rparr> = Inr [OtherRow]"
    by (simp add: example_defs)
  have c: "None = tokenContract example_config" by (simp add: example_defs)
  from getWalletTokens_absorbs_query_failure [OF tc q1, of parseFloat_decimal example_config 0]
  have a: "getWalletTokens parseFloat_decimal undeployed_session None = Inr []" by blast
  from getWalletTokens_absorbs_query_failure [OF tc q2, of parseFloat_decimal example_config 0] c
  have b: "(\<exists>e. getWalletTokens parseFloat_decimal malformed_session None = Inl e)
     \<and> (\<exists>st. checkRespawnStatus parseFloat_decimal malformed_session example_config 0 = Inr st
          \<and> tokens st = [] \<and> xprBalance st = None)"
    by simp
  from q1 a q2 b show ?thesis by blast
qed

subsection \<open>The action submitters and the modal\<close>

text \<open>
  Claim C3. \<open>recordFreeAccess\<close> and \<open>payForAccess\<close> each make one request to
  \<^verbatim>\<open>session.transact\<close>, with broadcast on and a transaction of exactly one action,
  authorized by the session, and settle as that request does. The data of the first is the
  account of the actor alone; the data of the second has the account, the payment amount of
  the configuration as quantity, and as memo the memo of the configuration or, when unset,
  \<^verbatim>\<open>respawn\<close>.
\<close>

theorem submitters_single_action:
  "(\<exists>a. recordFreeAccess session config =
            ([(\<lparr>actions = [a]\<rparr>, \<lparr>broadcast = True\<rparr>)],
             transact session \<lparr>actions = [a]\<rparr> \<lparr>broadcast = True\<rparr>)
        \<and> account a = accessContract config \<and> name a = accessAction config
        \<and> authorization a = [auth session]
        \<and> data a = [(''account'', actor (auth session))])
   \<and> (\<exists>a. payForAccess session config =
            ([(\<lparr>actions = [a]\<rparr>, \<lparr>broadcast = True\<rparr>)],
             transact session \<lparr>actions = [a]\<rparr> \<lparr>broadcast = True\<rparr>)
        \<and> account a = paymentContract config \<and> name a = paymentAction config
        \<and> authorization a = [auth session]
        \<and> map fst (data a) = [''account'', ''quantity'', ''memo'']
        \<and> map_of (data a) ''account'' = Some (actor (auth session))
        \<and> map_of (data a) ''quantity'' = Some (paymentAmount config)
        \<and> map_of (data a) ''memo'' =
              Some (case paymentMemo config of None \<Rightarrow> ''respawn'' | Some m \<Rightarrow> m))"
  by (simp add: recordFreeAccess_def payForAccess_def session_transact_def)

text \<open>
  Claim C4. When the request that \<open>payForAccess\<close> makes to \<^verbatim>\<open>session.transact\<close> rejects
  with \<open>err\<close>, \<open>payForAccess\<close> rejects with \<open>err\<close>, and the promise of the modal, the user
  having chosen to pay, resolves with the option, \<open>success = False\<close> and as \<open>error\<close> the
  message of \<open>err\<close> when it is an \<^verbatim>\<open>Error\<close>, and otherwise \<open>err\<close> as a string. The same
  holds of \<open>recordFreeAccess\<close> when the user chooses to wait and free access is open.
\<close>

theorem showRespawnModal_write_failure:
  assumes "(case status of Some st \<Rightarrow> Inr st
            | None \<Rightarrow> checkRespawnStatus parseFloat session config now) = Inr resolvedStatus"
    and "err = Error msg \<or> err = NonError msg"
  shows "(\<forall>tx opts.
            fst (payForAccess session config) = [(tx, opts)]
            \<and> transact session tx opts = Inl err \<longrightarrow>
            snd (payForAccess session config) = Inl err
            \<and> snd (showRespawnModal parseFloat session config status now (Choose Pay)) =
                Inr \<lparr>option = Pay, success = False, transactResult = None,
                     error = Some msg\<rparr>)
       \<and> (\<forall>tx opts.
            canRespawnFree resolvedStatus
            \<and> fst (recordFreeAccess session config) = [(tx, opts)]
            \<and> transact session tx opts = Inl err \<longrightarrow>
            snd (recordFreeAccess session config) = Inl err
            \<and> snd (showRespawnModal parseFloat session config status now (Choose Wait)) =
                Inr \<lparr>option = Wait, success = False, transactResult = None,
                     error = Some msg\<rparr>)"
  using assms
  by (auto simp: showRespawnModal_def onChoose_def payForAccess_def recordFreeAccess_def
        session_transact_def split: prod.splits sum.splits)

text \<open>
  On a chain without the contracts free access is open. A wallet that refuses to sign with
  an \<^verbatim>\<open>Error\<close> ends both choices of the user in a result that carries the message of the
  error; a wallet that throws the string \<^verbatim>\<open>boom\<close> ends them in a result that carries
  \<^verbatim>\<open>boom\<close>.
\<close>

theorem showRespawnModal_write_failure_witness:
  "checkRespawnStatus parseFloat_decimal undeployed_session example_config 0 =
       Inr \<lparr>canRespawnFree = True, lastAccessTime = None, cooldownEnds = None,
            timeRemainingMs = None, tokens = [], xprBalance = None, hasEnoughXpr = False\<rparr>
   \<and> fst (payForAccess undeployed_session example_config) =
       [(\<lparr>actions = [\<lparr>account = ''p'', name = ''unlock'',
                       data = [(''account'', ''bob''), (''quantity'', ''1.0000 XPR''),
                               (''memo'', ''respawn'')],
                       authorization = [\<lparr>actor = ''bob'', permission = ''active''\<rparr>]\<rparr>]\<rparr>,
         \<lparr>broadcast = True\<rparr>)]
   \<and> fst (recordFreeAccess undeployed_session example_config) =
       [(\<lparr>actions = [\<lparr>account = ''a'', name = ''setaccess'',
                       data = [(''account'', ''bob'')],
                       authorization = [\<lparr>actor = ''bob'', permission = ''active''\<rparr>]\<rparr>]\<rparr>,
         \<lparr>broadcast = True\<rparr>)]
   \<and> snd (payForAccess undeployed_session example_config) = Inl (Error ''user rejected'')
   \<and> snd (recordFreeAccess undeployed_session example_config) = Inl (Error ''user rejected'')
   \<and> snd (showRespawnModal parseFloat_decimal undeployed_session example_config None 0 (Choose Pay))
       = Inr \<lparr>option = Pay, success = False, transactResult = None, error = Some ''user rejected''\<rparr>
   \<and> snd (showRespawnModal parseFloat_decimal undeployed_session example_config None 0 (Choose Wait))
       = Inr \<lparr>option = Wait, success = False, transactResult = None, error = Some ''user rejected''\<rparr>
   \<and> snd (payForAccess string_throwing_session example_config) = Inl (NonError ''boom'')
   \<and> snd (recordFreeAccess string_throwing_session example_config) = Inl (NonError ''boom'')
   \<and> snd (showRespawnModal parseFloat_decimal string_throwing_session example_config None 0
            (Choose Pay))
       = Inr \<lparr>option = Pay, success = False, transactResult = None, error = Some ''boom''\<rparr>
   \<and> snd (showRespawnModal parseFloat_decimal string_throwing_session example_config None 0
            (Choose Wait))
       = Inr \<lparr>option = Wait, success = False, transactResult = None, error = Some ''boom''\<rparr>"
proof -
  let ?st = "\<lparr>canRespawnFree = True, lastAccessTime = None, cooldownEnds = None,
            timeRemainingMs = None, tokens = [], xprBalance = None, hasEnoughXpr = False\<rparr>"
  let ?pay = "\<lparr>actions = [\<lparr>account = ''p'', name = ''unlock'',
                       data = [(''account'', ''bob''), (''quantity'', ''1.0000 XPR''),
                               (''memo'', ''respawn'')],
                       authorization = [\<lparr>actor = ''bob'', permission = ''active''\<rparr>]\<rparr>]\<rparr>"
  let ?free = "\<lparr>actions = [\<lparr>account = ''a'', name = ''setaccess'',
                       data = [(''account'', ''bob'')],
                       authorization = [\<lparr>actor = ''bob'', permission = ''active''\<rparr>]\<rparr>]\<rparr>"
  have st: "checkRespawnStatus parseFloat_decimal undeployed_session example_config 0 = Inr ?st"
    and st': "checkRespawnStatus parseFloat_decimal string_throwing_session example_config 0
                = Inr ?st"
    by (simp_all add: checkRespawnStatus_def example_defs parse_defs Let_def)
  then have r: "(case None of Some st \<Rightarrow> Inr st
            | None \<Rightarrow> checkRespawnStatus parseFloat_decimal undeployed_session example_config 0)
           = Inr ?st"
    and r': "(case None of Some st \<Rightarrow> Inr st
            | None \<Rightarrow> checkRespawnStatus parseFloat_decimal string_throwing_session
                       example_config 0)
           = Inr ?st"
    by simp_all
  have p: "fst (payForAccess undeployed_session example_config) = [(?pay, \<lparr>broadcast = True\<rparr>)]"
    and p': "fst (payForAccess string_throwing_session example_config)
               = [(?pay, \<lparr>broadcast = True\<rparr>)]"
    by (simp_all add: payForAccess_def session_transact_def example_defs)
  have f: "fst (recordFreeAccess undeployed_session example_config) = [(?free, \<lparr>broadcast = True\<rparr>)]"
    and f': "fst (recordFreeAccess string_throwing_session example_config)
               = [(?free, \<lparr>broadcast = True\<rparr>)]"
    by (simp_all add: recordFreeAccess_def session_transact_def example_defs)
  have t: "transact undeployed_session tx opts = Inl (Error ''user rejected'')"
    and t': "transact string_throwing_session tx opts = Inl (NonError ''boom'')" for tx opts
    by (simp_all add: example_defs)
  have c: "canRespawnFree ?st" by simp
  have k: "Error ''user rejected'' = Error ''user rejected''
           \<or> Error ''user rejected'' = NonError ''user rejected''"
    and k': "NonError ''boom'' = Error ''boom'' \<or> NonError ''boom'' = NonError ''boom''"
    by simp_all
  note main = showRespawnModal_write_failure [OF r k]
  note main' = showRespawnModal_write_failure [OF r' k']
  from main p t [of ?pay "\<lparr>broadcast = True\<rparr>"]
  have a: "snd (payForAccess undeployed_session example_config) = Inl (Error ''user rejected'')
     \<and> snd (showRespawnModal parseFloat_decimal undeployed_session example_config None 0 (Choose Pay))
       = Inr \<lparr>option = Pay, success = False, transactResult = None, error = Some ''user rejected''\<rparr>"
    by simp
  from main c f t [of ?free "\<lparr>broadcast = True\<rparr>"]
  have b: "snd (recordFreeAccess undeployed_session example_config) = Inl (Error ''user rejected'')
     \<and> snd (showRespawnModal parseFloat_decimal undeployed_session example_config None 0 (Choose Wait))
       = Inr \<lparr>option = Wait, success = False, transactResult = None, error = Some ''user rejected''\<rparr>"
    by simp
  from main' p' t' [of ?pay "\<lparr>broadcast = True\<rparr>"]
  have a': "snd (payForAccess string_throwing_session example_config) = Inl (NonError ''boom'')
     \<and> snd (showRespawnModal parseFloat_decimal string_throwing_session example_config None 0
              (Choose Pay))
       = Inr \<lparr>option = Pay, success = False, transactResult = None, error = Some ''boom''\<rparr>"
    by simp
  from main' c f' t' [of ?free "\<lparr>broadcast = True\<rparr>"]
  have b': "snd (recordFreeAccess string_throwing_session example_config) = Inl (NonError ''boom'')
     \<and> snd (showRespawnModal parseFloat_decimal string_throwing_session example_config None 0
              (Choose Wait))
       = Inr \<lparr>option = Wait, success = False, transactResult = None, error = Some ''boom''\<rparr>"
    by simp
  from st p f a b a' b' show ?thesis by blast
qed

text \<open>
  Claim C10. When the user chooses to wait and the status has \<open>canRespawnFree = False\<close>,
  the promise of the modal resolves with the option, \<open>success = True\<close> and nothing else,
  and no request is made to \<^verbatim>\<open>session.transact\<close>. On the wait path the requests made
  are those of \<open>recordFreeAccess\<close> when \<open>canRespawnFree\<close> is true, and none otherwise.
\<close>

theorem showRespawnModal_wait_locked:
  assumes "(case status of Some st \<Rightarrow> Inr st
            | None \<Rightarrow> checkRespawnStatus parseFloat session config now) = Inr resolvedStatus"
  shows "(\<not> canRespawnFree resolvedStatus \<longrightarrow>
            showRespawnModal parseFloat session config status now (Choose Wait) =
              ([], Inr \<lparr>option = Wait, success = True, transactResult = None, error = None\<rparr>))
       \<and> fst (showRespawnModal parseFloat session config status now (Choose Wait)) =
            (if canRespawnFree resolvedStatus then fst (recordFreeAccess session config) else [])"
  using assms
  by (auto simp: showRespawnModal_def onChoose_def split: prod.splits sum.splits)

theorem showRespawnModal_wait_locked_witness:
  "\<not> canRespawnFree \<lparr>canRespawnFree = False, lastAccessTime = Some (Date (Finite 1700000000000)),
          cooldownEnds = Some (Date (Finite 1700086400000)),
          timeRemainingMs = Some (Finite 82800000),
          tokens = [], xprBalance = None, hasEnoughXpr = False\<rparr>
   \<and> showRespawnModal parseFloat_decimal example_session example_config
       (Some \<lparr>canRespawnFree = False, lastAccessTime = Some (Date (Finite 1700000000000)),
          cooldownEnds = Some (Date (Finite 1700086400000)),
          timeRemainingMs = Some (Finite 82800000),
          tokens = [], xprBalance = None, hasEnoughXpr = False\<rparr>) 1700003600000 (Choose Wait)
      = ([], Inr \<lparr>option = Wait, success = True, transactResult = None, error = None\<rparr>)"
proof -
  let ?st = "\<lparr>canRespawnFree = False, lastAccessTime = Some (Date (Finite 1700000000000)),
          cooldownEnds = Some (Date (Finite 1700086400000)),
          timeRemainingMs = Some (Finite 82800000),
          tokens = [], xprBalance = None, hasEnoughXpr = False\<rparr>"
  have r: "(case Some ?st of Some st \<Rightarrow> Inr st
            | None \<Rightarrow> checkRespawnStatus parseFloat_decimal example_session example_config 1700003600000)
           = Inr ?st"
    by simp
  from showRespawnModal_wait_locked [OF r]
  show ?thesis by simp
qed

end
